theory Spec2Isabelle
  imports Complex_Main
begin

section \<open>Ledger store\<close>

text \<open>
  The entity classes \<^verbatim>\<open>Account\<close>, \<^verbatim>\<open>Transaction\<close> and \<^verbatim>\<open>Category\<close>
  become records, their enums datatypes. Identifiers are integers handed out by a
  sequence per table (\<^verbatim>\<open>@PrimaryGeneratedColumn\<close>). Amounts and balances are
  integers, as in the examples of the specification (50, 100): the columns are
  \<^verbatim>\<open>decimal(12, 2)\<close> and hold such values exactly. The two decimal places and the
  limit of twelve digits are not modelled. The browser-automation columns of
  \<^verbatim>\<open>Account\<close> and the timestamp columns are left out: no operation below reads or
  writes them.

  A table is the list of its rows in insertion order. The transaction table has the
  foreign keys its entity declares (\<^verbatim>\<open>@ManyToOne\<close> with \<^verbatim>\<open>@JoinColumn\<close> on
  \<^verbatim>\<open>debitAccountId\<close>, \<^verbatim>\<open>creditAccountId\<close> and \<^verbatim>\<open>categoryId\<close>): a statement that
  sets one of these columns of an existing row to an id that names no row is refused, and
  writes nothing. The service opens no database transaction, so what a call wrote before a
  refused statement stays written. On insert, \<^verbatim>\<open>createTransaction\<close> has looked both
  accounts up itself; the category reference of a new row is not checked here.
\<close>

datatype AccountType =
  ASSET_BANK | ASSET_INVESTMENT | ASSET_CASH | LIABILITY_CREDIT_CARD | LIABILITY_LOAN
  | INCOME | EXPENSE

datatype TransactionStatus = PENDING | CLEARED | RECONCILED

datatype CategoryType = CAT_INCOME | CAT_EXPENSE | CAT_TRANSFER

text \<open>A JavaScript \<^verbatim>\<open>Error\<close> carrying its message.\<close>

datatype error = Error string

text \<open>
  A \<^verbatim>\<open>Date\<close> is either a local calendar day, counted in days from 1 January 1970
  (what \<^verbatim>\<open>new Date(year, monthIndex, day)\<close> builds), or the result of handing a
  string to the \<^verbatim>\<open>Date\<close> constructor, which is kept unparsed.
\<close>

datatype jsdate = LocalDay int | DateOfString string

record account =
  acc_id :: int
  acc_name :: string
  acc_type :: AccountType
  acc_description :: "string option"
  balance :: int
  acc_active :: bool

record transaction =
  tx_id :: int
  date :: jsdate
  amount :: int
  description :: string
  reference :: "string option"
  status :: TransactionStatus
  tx_notes :: "string option"
  debitAccountId :: int
  creditAccountId :: int
  categoryId :: "int option"
  importBatch :: "string option"
  originalData :: "string option"

record category =
  cat_id :: int
  cat_name :: string
  cat_type :: CategoryType
  cat_description :: "string option"
  color :: "string option"
  parentId :: "int option"
  cat_active :: bool

record ledger =
  accounts :: "account list"
  transactions :: "transaction list"
  categories :: "category list"
  next_account_id :: int
  next_transaction_id :: int
  next_category_id :: int

text \<open>The argument object of \<^verbatim>\<open>createTransaction\<close>.\<close>

record transactionData =
  td_date :: jsdate
  td_amount :: int
  td_description :: string
  td_debitAccountId :: int
  td_creditAccountId :: int
  td_categoryId :: "int option"
  td_reference :: "string option"
  td_notes :: "string option"

text \<open>
  \<^verbatim>\<open>Partial<Transaction>\<close>: every column may be present or absent (\<open>None\<close>). The
  primary key and the relation objects are not part of a patch.
\<close>

record transactionPatch =
  up_date :: "jsdate option"
  up_amount :: "int option"
  up_description :: "string option"
  up_reference :: "string option"
  up_status :: "TransactionStatus option"
  up_notes :: "string option"
  up_debitAccountId :: "int option"
  up_creditAccountId :: "int option"
  up_categoryId :: "int option"
  up_importBatch :: "string option"
  up_originalData :: "string option"

subsection \<open>Repository calls\<close>

definition findAccountById :: "account list \<Rightarrow> int \<Rightarrow> account option" where
  "findAccountById accs i = find (\<lambda>a. acc_id a = i) accs"

definition findTransactionById :: "transaction list \<Rightarrow> int \<Rightarrow> transaction option" where
  "findTransactionById txs i = find (\<lambda>t. tx_id t = i) txs"

definition findCategoryById :: "category list \<Rightarrow> int \<Rightarrow> category option" where
  "findCategoryById cats i = find (\<lambda>c. cat_id c = i) cats"

text \<open>\<^verbatim>\<open>increment({ id }, "balance", n)\<close>: an update of the rows with that id.\<close>

definition increment :: "account list \<Rightarrow> int \<Rightarrow> int \<Rightarrow> account list" where
  "increment accs i n = map (\<lambda>a. if acc_id a = i then a\<lparr>balance := balance a + n\<rparr> else a) accs"

definition decrement :: "account list \<Rightarrow> int \<Rightarrow> int \<Rightarrow> account list" where
  "decrement accs i n = map (\<lambda>a. if acc_id a = i then a\<lparr>balance := balance a - n\<rparr> else a) accs"

text \<open>\<^verbatim>\<open>save\<close> of a loaded row writes it back under its primary key.\<close>

definition saveTransaction :: "transaction list \<Rightarrow> transaction \<Rightarrow> transaction list" where
  "saveTransaction txs t = map (\<lambda>r. if tx_id r = tx_id t then t else r) txs"

definition removeTransaction :: "transaction list \<Rightarrow> transaction \<Rightarrow> transaction list" where
  "removeTransaction txs t = filter (\<lambda>r. tx_id r \<noteq> tx_id t) txs"

text \<open>\<^verbatim>\<open>Object.assign(transaction, updates)\<close>, one column at a time.\<close>

definition assign :: "transaction \<Rightarrow> transactionPatch \<Rightarrow> transaction" where
  "assign t p = t\<lparr>
     date := (case up_date p of Some v \<Rightarrow> v | None \<Rightarrow> date t),
     amount := (case up_amount p of Some v \<Rightarrow> v | None \<Rightarrow> amount t),
     description := (case up_description p of Some v \<Rightarrow> v | None \<Rightarrow> description t),
     reference := (case up_reference p of Some v \<Rightarrow> Some v | None \<Rightarrow> reference t),
     status := (case up_status p of Some v \<Rightarrow> v | None \<Rightarrow> status t),
     tx_notes := (case up_notes p of Some v \<Rightarrow> Some v | None \<Rightarrow> tx_notes t),
     debitAccountId := (case up_debitAccountId p of Some v \<Rightarrow> v | None \<Rightarrow> debitAccountId t),
     creditAccountId := (case up_creditAccountId p of Some v \<Rightarrow> v | None \<Rightarrow> creditAccountId t),
     categoryId := (case up_categoryId p of Some v \<Rightarrow> Some v | None \<Rightarrow> categoryId t),
     importBatch := (case up_importBatch p of Some v \<Rightarrow> Some v | None \<Rightarrow> importBatch t),
     originalData := (case up_originalData p of Some v \<Rightarrow> Some v | None \<Rightarrow> originalData t)\<rparr>"

text \<open>The patch \<^verbatim>\<open>{}\<close>.\<close>

definition no_patch :: transactionPatch where
  "no_patch = \<lparr>up_date = None, up_amount = None, up_description = None, up_reference = None,
                up_status = None, up_notes = None, up_debitAccountId = None,
                up_creditAccountId = None, up_categoryId = None, up_importBatch = None,
                up_originalData = None\<rparr>"

text \<open>
  The foreign keys, for the columns a patch sets: each account or category id in the
  patch names a row. The message of a refused statement is the database's, with the name
  of the constraint left out.
\<close>

definition references_ok :: "ledger \<Rightarrow> transactionPatch \<Rightarrow> bool" where
  "references_ok s p \<longleftrightarrow>
     (case up_debitAccountId p of None \<Rightarrow> True
      | Some a \<Rightarrow> findAccountById (accounts s) a \<noteq> None)
   \<and> (case up_creditAccountId p of None \<Rightarrow> True
      | Some a \<Rightarrow> findAccountById (accounts s) a \<noteq> None)
   \<and> (case up_categoryId p of None \<Rightarrow> True
      | Some c \<Rightarrow> findCategoryById (categories s) c \<noteq> None)"

definition foreign_key_violation :: error where
  "foreign_key_violation = Error ''update on table transaction violates foreign key constraint''"

section \<open>Posting engine (TransactionService)\<close>

definition updateAccountBalances :: "ledger \<Rightarrow> int \<Rightarrow> int \<Rightarrow> int \<Rightarrow> ledger" where
  "updateAccountBalances s debitId creditId n =
     s\<lparr>accounts := decrement (increment (accounts s) debitId n) creditId n\<rparr>"

definition createTransaction :: "ledger \<Rightarrow> transactionData \<Rightarrow> error + (transaction \<times> ledger)" where
  "createTransaction s d =
     (case (findAccountById (accounts s) (td_debitAccountId d),
            findAccountById (accounts s) (td_creditAccountId d)) of
        (Some debitAccount, Some creditAccount) \<Rightarrow>
          let savedTransaction = \<lparr>
                tx_id = next_transaction_id s,
                date = td_date d,
                amount = td_amount d,
                description = td_description d,
                reference = td_reference d,
                status = PENDING,
                tx_notes = td_notes d,
                debitAccountId = td_debitAccountId d,
                creditAccountId = td_creditAccountId d,
                categoryId = td_categoryId d,
                importBatch = None,
                originalData = None\<rparr>;
              s1 = s\<lparr>transactions := transactions s @ [savedTransaction],
                     next_transaction_id := next_transaction_id s + 1\<rparr>
          in Inr (savedTransaction,
                  updateAccountBalances s1 (td_debitAccountId d) (td_creditAccountId d) (td_amount d))
      | _ \<Rightarrow> Inl (Error ''One or both accounts not found''))"

text \<open>
  \<^verbatim>\<open>updateTransaction\<close> returns the saved row or the error it throws, and the ledger
  it leaves. The two balance updates are issued before \<^verbatim>\<open>save\<close>; when \<^verbatim>\<open>save\<close> is
  refused they stay written.
\<close>

definition updateTransaction ::
  "ledger \<Rightarrow> int \<Rightarrow> transactionPatch \<Rightarrow> (error + transaction) \<times> ledger" where
  "updateTransaction s i updates =
     (case findTransactionById (transactions s) i of
        None \<Rightarrow> (Inl (Error ''Transaction not found''), s)
      | Some t \<Rightarrow>
          let s2 =
                (if up_amount updates \<noteq> None \<or> up_debitAccountId updates \<noteq> None
                    \<or> up_creditAccountId updates \<noteq> None
                 then
                   let s1 = updateAccountBalances s (debitAccountId t) (creditAccountId t) (- amount t);
                       newAmount = (case up_amount updates of Some v \<Rightarrow> v | None \<Rightarrow> amount t);
                       newDebitAccountId =
                         (case up_debitAccountId updates of Some v \<Rightarrow> v | None \<Rightarrow> debitAccountId t);
                       newCreditAccountId =
                         (case up_creditAccountId updates of Some v \<Rightarrow> v | None \<Rightarrow> creditAccountId t)
                   in updateAccountBalances s1 newDebitAccountId newCreditAccountId newAmount
                 else s);
              t' = assign t updates
          in if references_ok s2 updates
             then (Inr t', s2\<lparr>transactions := saveTransaction (transactions s2) t'\<rparr>)
             else (Inl foreign_key_violation, s2))"

definition deleteTransaction :: "ledger \<Rightarrow> int \<Rightarrow> error + ledger" where
  "deleteTransaction s i =
     (case findTransactionById (transactions s) i of
        None \<Rightarrow> Inl (Error ''Transaction not found'')
      | Some t \<Rightarrow>
          let s1 = updateAccountBalances s (debitAccountId t) (creditAccountId t) (- amount t)
          in Inr (s1\<lparr>transactions := removeTransaction (transactions s1) t\<rparr>))"


subsection \<open>The balance invariant\<close>

text \<open>
  The posting sum of an account over a table of transactions: the amounts of the rows that
  debit it, minus the amounts of the rows that credit it. A ledger is balanced when every
  account row stores its posting sum.
\<close>

definition posting_sum :: "transaction list \<Rightarrow> int \<Rightarrow> int" where
  "posting_sum txs a =
     sum_list (map amount (filter (\<lambda>t. debitAccountId t = a) txs))
     - sum_list (map amount (filter (\<lambda>t. creditAccountId t = a) txs))"

definition balanced :: "ledger \<Rightarrow> bool" where
  "balanced s = list_all (\<lambda>a. balance a = posting_sum (transactions s) (acc_id a)) (accounts s)"

section \<open>Strings and numbers of the host language\<close>

text \<open>
  Strings are lists of characters below 256; white space is the ASCII white space.
  A number is \<^verbatim>\<open>NaN\<close>, an infinity or a rational: the rounding of a decimal literal to
  a double is not modelled. \<open>parseInt\<close> is only applied to groups of digits, and reads
  the leading digits in base ten.
\<close>

definition is_digit :: "char \<Rightarrow> bool" where
  "is_digit c \<longleftrightarrow> c \<in> set ''0123456789''"

definition is_space :: "char \<Rightarrow> bool" where
  "is_space c \<longleftrightarrow> c \<in> set [CHR 0x09, CHR 0x0A, CHR 0x0B, CHR 0x0C, CHR 0x0D, CHR '' '']"

definition trim :: "string \<Rightarrow> string" where
  "trim s = rev (dropWhile is_space (rev (dropWhile is_space s)))"

fun split_on :: "char \<Rightarrow> string \<Rightarrow> string list" where
  "split_on c [] = [[]]"
| "split_on c (x # xs) =
     (if x = c then [] # split_on c xs
      else (case split_on c xs of [] \<Rightarrow> [[x]] | y # ys \<Rightarrow> (x # y) # ys))"

definition digit_val :: "char \<Rightarrow> nat" where
  "digit_val c = of_char c - of_char CHR ''0''"

definition digits_val :: "string \<Rightarrow> nat" where
  "digits_val ds = foldl (\<lambda>n c. 10 * n + digit_val c) 0 ds"

definition parseInt :: "string \<Rightarrow> int" where
  "parseInt s = int (digits_val (takeWhile is_digit s))"

datatype jsnum = NaN | Infinity bool | Finite rat

definition pow10 :: "int \<Rightarrow> rat" where
  "pow10 e = (if 0 \<le> e then 10 ^ nat e else 1 / 10 ^ nat (- e))"

definition read_sign :: "string \<Rightarrow> bool \<times> string" where
  "read_sign s = (case s of
       c # r \<Rightarrow> (if c = CHR ''-'' then (True, r) else if c = CHR ''+'' then (False, r) else (False, s))
     | [] \<Rightarrow> (False, s))"

definition read_exponent :: "string \<Rightarrow> int" where
  "read_exponent s = (case s of
       c # r \<Rightarrow>
         (if c = CHR ''e'' \<or> c = CHR ''E'' then
            (let (neg, ds) = read_sign r; e = takeWhile is_digit ds
             in if e = [] then 0 else if neg then - int (digits_val e) else int (digits_val e))
          else 0)
     | [] \<Rightarrow> 0)"

definition parseFloat :: "string \<Rightarrow> jsnum" where
  "parseFloat s =
     (let (neg, body) = read_sign (dropWhile is_space s) in
      if take 8 body = ''Infinity'' then Infinity neg
      else
        let ip = takeWhile is_digit body;
            r1 = dropWhile is_digit body;
            fp = (case r1 of c # r \<Rightarrow> if c = CHR ''.'' then takeWhile is_digit r else [] | [] \<Rightarrow> []);
            r2 = (case r1 of c # r \<Rightarrow> if c = CHR ''.'' then dropWhile is_digit r else r1 | [] \<Rightarrow> [])
        in if ip = [] \<and> fp = [] then NaN
           else
             let m = of_nat (digits_val (ip @ fp)) * pow10 (read_exponent r2 - int (length fp))
             in Finite (if neg then - m else m))"

text \<open>A natural number in a template literal.\<close>

function string_of_nat :: "nat \<Rightarrow> string" where
  "string_of_nat n =
     (if n < 10 then [''0123456789'' ! n]
      else string_of_nat (n div 10) @ [''0123456789'' ! (n mod 10)])"
  by pat_completeness auto
termination
  by (relation "measure id") auto

declare string_of_nat.simps [simp del]

section \<open>Reading a balance (TransactionService.getAccountBalance)\<close>

text \<open>
  The values a handler can tell apart: JSON scalars. The database driver hands a
  \<^verbatim>\<open>decimal\<close> column back as its text, and the entity declares no transformer, so
  \<^verbatim>\<open>account.balance\<close> of a loaded row is a string such as \<^verbatim>\<open>0.00\<close> (elsewhere the
  repository converts it itself, with \<^verbatim>\<open>parseFloat(account.balance.toString())\<close>).
  \<^verbatim>\<open>account?.balance || 0\<close> gives the number 0 when no account is found or the balance
  is falsy.
\<close>

datatype jsval = JUndefined | JNull | JBool bool | JNumber rat | JString string

definition falsy :: "jsval \<Rightarrow> bool" where
  "falsy v \<longleftrightarrow> v = JUndefined \<or> v = JNull \<or> v = JBool False \<or> v = JNumber 0 \<or> v = JString []"

definition decimal_text :: "int \<Rightarrow> string" where
  "decimal_text n = (if n < 0 then ''-'' else []) @ string_of_nat (nat \<bar>n\<bar>) @ ''.00''"

definition getAccountBalance :: "ledger \<Rightarrow> int \<Rightarrow> jsval" where
  "getAccountBalance s accountId =
     (case findAccountById (accounts s) accountId of
        None \<Rightarrow> JNumber 0
      | Some a \<Rightarrow>
          (let b = JString (decimal_text (balance a)) in if falsy b then JNumber 0 else b))"

section \<open>QIF parser (fileParser)\<close>

text \<open>
  \<^verbatim>\<open>parseQif\<close>. The object under construction has every field optional; an entry is
  kept when its date is a non-empty string and its amount was set.
\<close>

record QifTransaction =
  qif_date :: string
  qif_amount :: jsnum
  qif_description :: "string option"
  qif_category :: "string option"
  qif_cleared :: "string option"
  qif_reference :: "string option"

record QifPartial =
  qp_date :: "string option"
  qp_amount :: "jsnum option"
  qp_description :: "string option"
  qp_category :: "string option"
  qp_cleared :: "string option"
  qp_reference :: "string option"

definition truthy :: "string option \<Rightarrow> bool" where
  "truthy v = (case v of None \<Rightarrow> False | Some s \<Rightarrow> s \<noteq> [])"

definition qif_line :: "QifPartial \<Rightarrow> string \<Rightarrow> QifPartial" where
  "qif_line tr line =
     (if trim line = [] then tr
      else
        let code = hd line; v = trim (tl line) in
        if code = CHR ''D'' then tr\<lparr>qp_date := Some v\<rparr>
        else if code = CHR ''T'' then tr\<lparr>qp_amount := Some (parseFloat v)\<rparr>
        else if code = CHR ''P'' \<or> code = CHR ''M'' then
          tr\<lparr>qp_description :=
               Some (if truthy (qp_description tr) then the (qp_description tr) @ '' - '' @ v else v)\<rparr>
        else if code = CHR ''L'' then tr\<lparr>qp_category := Some v\<rparr>
        else if code = CHR ''C'' then tr\<lparr>qp_cleared := Some v\<rparr>
        else if code = CHR ''N'' then tr\<lparr>qp_reference := Some v\<rparr>
        else tr)"

definition qif_entry :: "string \<Rightarrow> QifTransaction list" where
  "qif_entry entry =
     (let tr = foldl qif_line
                 \<lparr>qp_date = None, qp_amount = None, qp_description = None,
                  qp_category = None, qp_cleared = None, qp_reference = None\<rparr>
                 (split_on CHR 0x0A (trim entry))
      in case (qp_date tr, qp_amount tr) of
           (Some d, Some a) \<Rightarrow>
             if d \<noteq> [] then
               [\<lparr>qif_date = d, qif_amount = a, qif_description = qp_description tr,
                 qif_category = qp_category tr, qif_cleared = qp_cleared tr,
                 qif_reference = qp_reference tr\<rparr>]
             else []
         | _ \<Rightarrow> [])"

definition parseQif :: "string \<Rightarrow> QifTransaction list" where
  "parseQif qifContent =
     concat (map qif_entry (filter (\<lambda>entry. trim entry \<noteq> []) (split_on CHR ''^'' qifContent)))"

section \<open>Date parsing (ImportService.parseDate)\<close>

text \<open>
  The three patterns are sequences of literal characters and groups \<^verbatim>\<open>(\d{lo,hi})\<close>.
  \<open>match_items\<close> matches a pattern at the start of a string, a group taking as many
  digits as it can and giving them back one at a time; \<open>regex_match\<close> is
  \<^verbatim>\<open>String.prototype.match\<close>: the leftmost position where the pattern matches.
\<close>

datatype regex_item = Lit char | Digits nat nat

fun match_items :: "regex_item list \<Rightarrow> string \<Rightarrow> string list option" where
  "match_items [] s = Some []"
| "match_items (Lit c # ps) s =
     (case s of [] \<Rightarrow> None | x # xs \<Rightarrow> if x = c then match_items ps xs else None)"
| "match_items (Digits lo hi # ps) s =
     (case List.find (\<lambda>r. r \<noteq> None)
             (map (\<lambda>k. map_option (\<lambda>groups. take k s # groups) (match_items ps (drop k s)))
                  (rev [lo ..< Suc (min hi (length (takeWhile is_digit s)))])) of
        Some r \<Rightarrow> r
      | None \<Rightarrow> None)"

fun regex_match :: "regex_item list \<Rightarrow> string \<Rightarrow> string list option" where
  "regex_match ps [] = match_items ps []"
| "regex_match ps (x # xs) =
     (case match_items ps (x # xs) of Some groups \<Rightarrow> Some groups | None \<Rightarrow> regex_match ps xs)"

definition formats :: "regex_item list list" where
  "formats = [
     [Digits 1 2, Lit CHR ''/'', Digits 1 2, Lit CHR ''/'', Digits 2 4],
     [Digits 1 2, Lit CHR ''-'', Digits 1 2, Lit CHR ''-'', Digits 2 4],
     [Digits 4 4, Lit CHR ''-'', Digits 1 2, Lit CHR ''-'', Digits 1 2]]"

text \<open>
  \<^verbatim>\<open>new Date(year, monthIndex, day)\<close> in local time: months beyond the year and days
  beyond the month carry over. The day number of a civil date and back, in the proleptic
  Gregorian calendar.
\<close>

definition days_from_civil :: "int \<Rightarrow> int \<Rightarrow> int \<Rightarrow> int" where
  "days_from_civil y m d =
     (let y' = (if m \<le> 2 then y - 1 else y);
          era = y' div 400;
          yoe = y' - era * 400;
          doy = (153 * (if 2 < m then m - 3 else m + 9) + 2) div 5 + d - 1;
          doe = yoe * 365 + yoe div 4 - yoe div 100 + doy
      in era * 146097 + doe - 719468)"

definition civil_from_days :: "int \<Rightarrow> int \<times> int \<times> int" where
  "civil_from_days z =
     (let z' = z + 719468;
          era = z' div 146097;
          doe = z' - era * 146097;
          yoe = (doe - doe div 1460 + doe div 36524 - doe div 146096) div 365;
          doy = doe - (365 * yoe + yoe div 4 - yoe div 100);
          mp = (5 * doy + 2) div 153;
          d = doy - (153 * mp + 2) div 5 + 1;
          m = (if mp < 10 then mp + 3 else mp - 9)
      in ((if m \<le> 2 then yoe + era * 400 + 1 else yoe + era * 400), m, d))"

definition newDate :: "int \<Rightarrow> int \<Rightarrow> int \<Rightarrow> jsdate" where
  "newDate year monthIndex day =
     (let y = (if 0 \<le> year \<and> year \<le> 99 then 1900 + year else year)
      in LocalDay (days_from_civil (y + monthIndex div 12) (monthIndex mod 12 + 1) 1 + day - 1))"

fun getFullYear :: "jsdate \<Rightarrow> int option" where
  "getFullYear (LocalDay z) = Some (fst (civil_from_days z))"
| "getFullYear (DateOfString s) = None"

fun getMonth :: "jsdate \<Rightarrow> int option" where
  "getMonth (LocalDay z) = Some (fst (snd (civil_from_days z)) - 1)"
| "getMonth (DateOfString s) = None"

fun getDate :: "jsdate \<Rightarrow> int option" where
  "getDate (LocalDay z) = Some (snd (snd (civil_from_days z)))"
| "getDate (DateOfString s) = None"

text \<open>The loop over \<^verbatim>\<open>formats\<close>; \<open>i\<close> is the index of the pattern at hand, and
  \<^verbatim>\<open>format === formats[2]\<close> is \<open>i = 2\<close>.\<close>

fun parseDate_formats :: "regex_item list list \<Rightarrow> nat \<Rightarrow> string \<Rightarrow> jsdate option" where
  "parseDate_formats [] i dateString = None"
| "parseDate_formats (format # rest) i dateString =
     (case regex_match format dateString of
        Some [g1, g2, g3] \<Rightarrow>
          let year0 = parseInt g3;
              month0 = parseInt g1;
              day0 = parseInt g2;
              year = (if year0 < 100 then year0 + (if year0 < 50 then 2000 else 1900) else year0);
              month = (if i = 2 then day0 else month0);
              day = (if i = 2 then month0 else day0)
          in Some (newDate year (month - 1) day)
      | _ \<Rightarrow> parseDate_formats rest (Suc i) dateString)"

definition parseDate :: "string \<Rightarrow> jsdate" where
  "parseDate dateString =
     (case parseDate_formats formats 0 dateString of
        Some d \<Rightarrow> d
      | None \<Rightarrow> DateOfString dateString)"

section \<open>Import execution (ImportService)\<close>

text \<open>
  \<^verbatim>\<open>Date.now()\<close> is the argument \<open>now\<close>. The two look-ups of the default accounts
  before the loop only read and their results are not used; they are left out.
\<close>

record ImportMapping =
  dateField :: string
  amountField :: string
  descriptionField :: string
  categoryField :: "string option"
  referenceField :: "string option"

text \<open>One element of \<^verbatim>\<open>preview.transactions\<close>, as the preview functions build it.\<close>

record candidate =
  originalIndex :: nat
  cd_date :: jsdate
  cd_amount :: int
  cd_description :: string
  cd_reference :: "string option"
  cd_category :: "string option"
  isDebit :: bool

record ImportPreview =
  pv_transactions :: "candidate list"
  mappings :: ImportMapping
  pv_errors :: "string list"
  warnings :: "string list"

record ImportResult =
  success :: nat
  errors :: "string list"

definition findAccountByNameType :: "account list \<Rightarrow> string \<Rightarrow> AccountType \<Rightarrow> account option" where
  "findAccountByNameType accs n ty = find (\<lambda>a. acc_name a = n \<and> acc_type a = ty) accs"

definition findCategoryByNameType :: "category list \<Rightarrow> string \<Rightarrow> CategoryType \<Rightarrow> category option" where
  "findCategoryByNameType cats n ty = find (\<lambda>c. cat_name c = n \<and> cat_type c = ty) cats"

text \<open>\<^verbatim>\<open>save\<close> of a new account: the sequence gives the id, the column defaults the rest.\<close>

definition insertAccount :: "ledger \<Rightarrow> string \<Rightarrow> AccountType \<Rightarrow> string \<Rightarrow> account \<times> ledger" where
  "insertAccount s n ty descr =
     (let a = \<lparr>acc_id = next_account_id s, acc_name = n, acc_type = ty,
                acc_description = Some descr, balance = 0, acc_active = True\<rparr>
      in (a, s\<lparr>accounts := accounts s @ [a], next_account_id := next_account_id s + 1\<rparr>))"

definition insertCategory :: "ledger \<Rightarrow> string \<Rightarrow> CategoryType \<Rightarrow> string \<Rightarrow> category \<times> ledger" where
  "insertCategory s n ty descr =
     (let c = \<lparr>cat_id = next_category_id s, cat_name = n, cat_type = ty,
                cat_description = Some descr, color = None, parentId = None, cat_active = True\<rparr>
      in (c, s\<lparr>categories := categories s @ [c], next_category_id := next_category_id s + 1\<rparr>))"

definition getOrCreateExpenseAccount :: "ledger \<Rightarrow> string option \<Rightarrow> int \<times> ledger" where
  "getOrCreateExpenseAccount s categoryName =
     (let accountName = ''Expenses'' @ (if truthy categoryName then '' - '' @ the categoryName else [])
      in case findAccountByNameType (accounts s) accountName EXPENSE of
           Some a \<Rightarrow> (acc_id a, s)
         | None \<Rightarrow>
             let (a, s') = insertAccount s accountName EXPENSE
                   (''Auto-created expense account for ''
                      @ (if truthy categoryName then the categoryName else ''general expenses''))
             in (acc_id a, s'))"

definition getOrCreateIncomeAccount :: "ledger \<Rightarrow> string option \<Rightarrow> int \<times> ledger" where
  "getOrCreateIncomeAccount s categoryName =
     (let accountName = ''Income'' @ (if truthy categoryName then '' - '' @ the categoryName else [])
      in case findAccountByNameType (accounts s) accountName INCOME of
           Some a \<Rightarrow> (acc_id a, s)
         | None \<Rightarrow>
             let (a, s') = insertAccount s accountName INCOME
                   (''Auto-created income account for ''
                      @ (if truthy categoryName then the categoryName else ''general income''))
             in (acc_id a, s'))"

definition getOrCreateCategory :: "ledger \<Rightarrow> string \<Rightarrow> CategoryType \<Rightarrow> int \<times> ledger" where
  "getOrCreateCategory s categoryName ty =
     (case findCategoryByNameType (categories s) categoryName ty of
        Some c \<Rightarrow> (cat_id c, s)
      | None \<Rightarrow>
          let (c, s') = insertCategory s categoryName ty ''Auto-created from import''
          in (cat_id c, s'))"

definition truthy_id :: "int option \<Rightarrow> bool" where
  "truthy_id v = (case v of None \<Rightarrow> False | Some i \<Rightarrow> i \<noteq> 0)"

text \<open>The body of the \<^verbatim>\<open>try\<close> block for one candidate: the error it throws, if any,
  and the ledger it leaves.\<close>

definition import_row ::
  "ledger \<Rightarrow> string \<Rightarrow> int \<Rightarrow> int option \<Rightarrow> int option \<Rightarrow> candidate \<Rightarrow> (error + unit) \<times> ledger" where
  "import_row s batch accountId defaultCreditAccountId defaultDebitAccountId tr =
     (let (debitId, creditId, s1) =
            (if isDebit tr then
               (let (d, s') = (if truthy_id defaultDebitAccountId then (the defaultDebitAccountId, s)
                               else getOrCreateExpenseAccount s (cd_category tr))
                in (d, accountId, s'))
             else
               (let (c, s') = (if truthy_id defaultCreditAccountId then (the defaultCreditAccountId, s)
                               else getOrCreateIncomeAccount s (cd_category tr))
                in (accountId, c, s')));
          (catId, s2) =
            (if truthy (cd_category tr) then
               (let (c, s') = getOrCreateCategory s1 (the (cd_category tr))
                                (if isDebit tr then CAT_EXPENSE else CAT_INCOME)
                in (Some c, s'))
             else (None, s1))
      in case createTransaction s2
                \<lparr>td_date = cd_date tr, td_amount = cd_amount tr, td_description = cd_description tr,
                 td_debitAccountId = debitId, td_creditAccountId = creditId,
                 td_categoryId = catId, td_reference = cd_reference tr,
                 td_notes = Some (''Imported from '' @ batch)\<rparr> of
           Inl e \<Rightarrow> (Inl e, s2)
         | Inr (t, s3) \<Rightarrow> (Inr (), s3))"

definition row_message :: "candidate \<Rightarrow> string \<Rightarrow> string" where
  "row_message tr message = ''Row '' @ string_of_nat (originalIndex tr + 1) @ '': '' @ message"

fun import_loop ::
  "ledger \<Rightarrow> string \<Rightarrow> int \<Rightarrow> int option \<Rightarrow> int option \<Rightarrow> candidate list \<Rightarrow> nat \<Rightarrow> string list
     \<Rightarrow> ImportResult \<times> ledger" where
  "import_loop s batch accountId dc dd [] successCount errs =
     (\<lparr>success = successCount, errors = errs\<rparr>, s)"
| "import_loop s batch accountId dc dd (tr # rest) successCount errs =
     (case import_row s batch accountId dc dd tr of
        (Inr u, s') \<Rightarrow> import_loop s' batch accountId dc dd rest (successCount + 1) errs
      | (Inl (Error message), s') \<Rightarrow>
          import_loop s' batch accountId dc dd rest successCount
            (errs @ [row_message tr message]))"

definition importTransactions ::
  "ledger \<Rightarrow> nat \<Rightarrow> ImportPreview \<Rightarrow> int \<Rightarrow> int option \<Rightarrow> int option \<Rightarrow> error + (ImportResult \<times> ledger)" where
  "importTransactions s now preview accountId defaultCreditAccountId defaultDebitAccountId =
     (case findAccountById (accounts s) accountId of
        None \<Rightarrow> Inl (Error ''Target account not found'')
      | Some account \<Rightarrow>
          Inr (import_loop s (''import_'' @ string_of_nat now) accountId
                 defaultCreditAccountId defaultDebitAccountId (pv_transactions preview) 0 []))"



section \<open>Example data\<close>

text \<open>A ledger of two accounts and one transaction, and inputs for the operations.\<close>

definition ex_row :: transaction where
  "ex_row = \<lparr>tx_id = 1, date = LocalDay 19723, amount = 50, description = ''Grocery Store'',
              reference = None, status = PENDING, tx_notes = None, debitAccountId = 2,
              creditAccountId = 1, categoryId = None, importBatch = None, originalData = None\<rparr>"

definition ex_ledger :: ledger where
  "ex_ledger = \<lparr>accounts =
                   [\<lparr>acc_id = 1, acc_name = ''Checking'', acc_type = ASSET_BANK,
                     acc_description = None, balance = - 50, acc_active = True\<rparr>,
                    \<lparr>acc_id = 2, acc_name = ''Expenses - Food'', acc_type = EXPENSE,
                     acc_description = None, balance = 50, acc_active = True\<rparr>],
                 transactions = [ex_row], categories = [],
                 next_account_id = 3, next_transaction_id = 2, next_category_id = 1\<rparr>"

definition ex_data :: "int \<Rightarrow> int \<Rightarrow> int \<Rightarrow> transactionData" where
  "ex_data debitId creditId n =
     \<lparr>td_date = LocalDay 19723, td_amount = n, td_description = ''Grocery Store'',
      td_debitAccountId = debitId, td_creditAccountId = creditId, td_categoryId = None,
      td_reference = None, td_notes = None\<rparr>"

definition ex_opened :: ledger where
  "ex_opened = \<lparr>accounts =
                   [\<lparr>acc_id = 1, acc_name = ''Savings'', acc_type = ASSET_BANK,
                     acc_description = None, balance = 0, acc_active = True\<rparr>],
                 transactions = [], categories = [],
                 next_account_id = 2, next_transaction_id = 1, next_category_id = 1\<rparr>"

definition ex_map :: ImportMapping where
  "ex_map = \<lparr>dateField = ''date'', amountField = ''amount'', descriptionField = ''description'',
             categoryField = Some ''category'', referenceField = Some ''reference''\<rparr>"


definition ex_expense :: candidate where
  "ex_expense = \<lparr>originalIndex = 0, cd_date = LocalDay 19723, cd_amount = 5,
                  cd_description = ''Lunch'', cd_reference = None,
                  cd_category = Some ''Food'', isDebit = True\<rparr>"

definition ex_preview :: "candidate list \<Rightarrow> ImportPreview" where
  "ex_preview rows = \<lparr>pv_transactions = rows, mappings = ex_map, pv_errors = [], warnings = []\<rparr>"

section \<open>Auxiliary notions\<close>

text \<open>What one call of \<^verbatim>\<open>updateAccountBalances\<close> adds to the balance of an account.\<close>

definition share :: "int \<Rightarrow> int \<Rightarrow> int \<Rightarrow> int \<Rightarrow> int" where
  "share debitId creditId n a = (if a = debitId then n else 0) - (if a = creditId then n else 0)"

section \<open>Posting engine\<close>

text \<open>The accounts after a posting: every balance moved by the posting's share.\<close>

lemma accounts_updateAccountBalances:
  "accounts (updateAccountBalances s d c n) =
     map (\<lambda>a. a\<lparr>balance := balance a + share d c n (acc_id a)\<rparr>) (accounts s)"
  by (simp add: updateAccountBalances_def increment_def decrement_def share_def)

lemma other_updateAccountBalances [simp]:
  "transactions (updateAccountBalances s d c n) = transactions s"
  "next_transaction_id (updateAccountBalances s d c n) = next_transaction_id s"
  by (simp_all add: updateAccountBalances_def)

lemma share_neg: "share d c (- n) a = - share d c n a"
  by (simp add: share_def)

lemma createTransaction_Inr:
  assumes "createTransaction s d = Inr (t, s')"
  shows "transactions s' = transactions s @ [t]"
    and "accounts s' = map (\<lambda>a. a\<lparr>balance := balance a
            + share (td_debitAccountId d) (td_creditAccountId d) (td_amount d) (acc_id a)\<rparr>) (accounts s)"
    and "next_transaction_id s' = next_transaction_id s + 1"
    and "tx_id t = next_transaction_id s"
    and "debitAccountId t = td_debitAccountId d"
    and "creditAccountId t = td_creditAccountId d"
    and "amount t = td_amount d"
  using assms
  by (auto simp: createTransaction_def Let_def accounts_updateAccountBalances
           split: option.splits)

lemma findAccountById_map_balance:
  "findAccountById (map (\<lambda>a. a\<lparr>balance := f a\<rparr>) accs) i
     = map_option (\<lambda>a. a\<lparr>balance := f a\<rparr>) (findAccountById accs i)"
  unfolding findAccountById_def by (induction accs) auto

lemma ex_find:
  "findTransactionById (transactions ex_ledger) 1 = Some ex_row"
  "findAccountById (accounts ex_ledger) 1 \<noteq> None"
  "findAccountById (accounts ex_ledger) 2 \<noteq> None"
  "findAccountById (accounts ex_ledger) 99 = None"
  by (simp_all add: ex_ledger_def ex_row_def findTransactionById_def findAccountById_def)

lemma string_of_nat_small:
  "string_of_nat 0 = ''0''" "string_of_nat (Suc 0) = ''1''" "string_of_nat 1 = ''1''"
  "string_of_nat 2 = ''2''"
  by (subst string_of_nat.simps, simp)+

lemma string_of_nat_17: "string_of_nat 17 = ''17''"
  by (subst string_of_nat.simps) (simp add: string_of_nat_small)

text \<open>
  Claim C1 says that after every prefix of create, update and delete calls each account
  stores its posting sum. The code breaks this on an update that re-points a transaction
  to an account that does not exist: \<^verbatim>\<open>updateTransaction\<close> does not look the new
  account up, as \<^verbatim>\<open>createTransaction\<close> does. It takes the old posting back, applies
  the new one (the increment of the missing account touches no row), and only then saves
  the row, which the foreign key refuses. The call throws with the row unchanged and the
  old debit account short of the amount: in the example ledger, which is balanced,
  account 2 is left at 0 with a posting sum of 50.
\<close>

theorem updateTransaction_dangling_debit:
  "balanced ex_ledger
   \<and> updateTransaction ex_ledger 1 (no_patch\<lparr>up_debitAccountId := Some 99\<rparr>)
       = (Inl foreign_key_violation,
          ex_ledger\<lparr>accounts :=
            [\<lparr>acc_id = 1, acc_name = ''Checking'', acc_type = ASSET_BANK,
              acc_description = None, balance = - 50, acc_active = True\<rparr>,
             \<lparr>acc_id = 2, acc_name = ''Expenses - Food'', acc_type = EXPENSE,
              acc_description = None, balance = 0, acc_active = True\<rparr>]\<rparr>)
   \<and> posting_sum (transactions ex_ledger) 2 = 50
   \<and> \<not> balanced (snd (updateTransaction ex_ledger 1 (no_patch\<lparr>up_debitAccountId := Some 99\<rparr>)))"
proof -
  have start: "balanced ex_ledger"
    by (simp add: balanced_def posting_sum_def ex_ledger_def ex_row_def)
  have run: "updateTransaction ex_ledger 1 (no_patch\<lparr>up_debitAccountId := Some 99\<rparr>)
       = (Inl foreign_key_violation,
          ex_ledger\<lparr>accounts :=
            [\<lparr>acc_id = 1, acc_name = ''Checking'', acc_type = ASSET_BANK,
              acc_description = None, balance = - 50, acc_active = True\<rparr>,
             \<lparr>acc_id = 2, acc_name = ''Expenses - Food'', acc_type = EXPENSE,
              acc_description = None, balance = 0, acc_active = True\<rparr>]\<rparr>)"
    by (simp add: updateTransaction_def findTransactionById_def findAccountById_def
                  references_ok_def no_patch_def updateAccountBalances_def increment_def
                  decrement_def ex_ledger_def ex_row_def Let_def)
  have sum: "posting_sum (transactions ex_ledger) 2 = 50"
    by (simp add: posting_sum_def ex_ledger_def ex_row_def)
  have "\<not> balanced (snd (updateTransaction ex_ledger 1 (no_patch\<lparr>up_debitAccountId := Some 99\<rparr>)))"
    unfolding run by (simp add: balanced_def posting_sum_def ex_ledger_def ex_row_def)
  with start run sum show ?thesis by simp
qed

theorem updateTransaction_dangling_debit_witness:
  "fst (updateTransaction ex_ledger 1 (no_patch\<lparr>up_debitAccountId := Some 99\<rparr>))
     = Inl foreign_key_violation
   \<and> map balance (accounts (snd (updateTransaction ex_ledger 1
                                 (no_patch\<lparr>up_debitAccountId := Some 99\<rparr>)))) = [- 50, 0]
   \<and> transactions (snd (updateTransaction ex_ledger 1 (no_patch\<lparr>up_debitAccountId := Some 99\<rparr>)))
     = [ex_row]"
  unfolding updateTransaction_dangling_debit [THEN conjunct2, THEN conjunct1]
  by (simp add: ex_ledger_def)

text \<open>
  Claim C2 says that create with the debit and the credit id equal fails validation and
  writes nothing. The code means to enforce this (the route handlers answer
  \<^verbatim>\<open>Debit and credit accounts must be different\<close>), but \<^verbatim>\<open>createTransaction\<close>
  itself does not compare the two ids, and the import calls it directly. With both ids
  naming the same existing account the call raises no error and inserts the row; so does
  an import of a debit candidate whose default debit account is the target account.
\<close>

theorem createTransaction_same_account:
  "createTransaction ex_ledger (ex_data 1 1 20)
     = Inr (ex_row\<lparr>tx_id := 2, amount := 20, debitAccountId := 1\<rparr>,
            ex_ledger\<lparr>transactions := [ex_row, ex_row\<lparr>tx_id := 2, amount := 20, debitAccountId := 1\<rparr>],
                      next_transaction_id := 3\<rparr>)
   \<and> map_sum id fst (importTransactions ex_ledger 17 (ex_preview [ex_expense]) 1 None (Some 1))
     = Inr \<lparr>success = 1, errors = []\<rparr>
   \<and> map (\<lambda>t. (debitAccountId t, creditAccountId t, amount t))
         (transactions (snd (projr
            (importTransactions ex_ledger 17 (ex_preview [ex_expense]) 1 None (Some 1)))))
     = [(2, 1, 50), (1, 1, 5)]"
proof -
  have direct: "createTransaction ex_ledger (ex_data 1 1 20)
     = Inr (ex_row\<lparr>tx_id := 2, amount := 20, debitAccountId := 1\<rparr>,
            ex_ledger\<lparr>transactions := [ex_row, ex_row\<lparr>tx_id := 2, amount := 20, debitAccountId := 1\<rparr>],
                      next_transaction_id := 3\<rparr>)"
    by (simp add: createTransaction_def ex_ledger_def ex_data_def ex_row_def findAccountById_def
                  updateAccountBalances_def increment_def decrement_def Let_def)
  have row: "import_row ex_ledger b 1 None (Some 1) ex_expense
     = (Inr (),
        ex_ledger\<lparr>transactions :=
            [ex_row,
             \<lparr>tx_id = 2, date = LocalDay 19723, amount = 5, description = ''Lunch'',
              reference = None, status = PENDING, tx_notes = Some (''Imported from '' @ b),
              debitAccountId = 1, creditAccountId = 1, categoryId = Some 1,
              importBatch = None, originalData = None\<rparr>],
          categories :=
            [\<lparr>cat_id = 1, cat_name = ''Food'', cat_type = CAT_EXPENSE,
              cat_description = Some ''Auto-created from import'', color = None,
              parentId = None, cat_active = True\<rparr>],
          next_transaction_id := 3, next_category_id := 2\<rparr>)" for b
    by (simp add: import_row_def ex_expense_def ex_ledger_def truthy_id_def truthy_def
                  getOrCreateCategory_def findCategoryByNameType_def insertCategory_def
                  createTransaction_def findAccountById_def updateAccountBalances_def
                  increment_def decrement_def Let_def)
  have target: "findAccountById (accounts ex_ledger) 1 \<noteq> None"
    by (rule ex_find(2))
  have run: "importTransactions ex_ledger 17 (ex_preview [ex_expense]) 1 None (Some 1)
     = Inr (\<lparr>success = 1, errors = []\<rparr>,
            snd (import_row ex_ledger (''import_'' @ string_of_nat 17) 1 None (Some 1) ex_expense))"
    using target by (auto simp: importTransactions_def ex_preview_def row)
  show ?thesis
    unfolding run direct by (simp add: row ex_row_def)
qed

theorem createTransaction_same_account_witness:
  "debitAccountId (fst (projr (createTransaction ex_ledger (ex_data 1 1 20))))
     = creditAccountId (fst (projr (createTransaction ex_ledger (ex_data 1 1 20))))
   \<and> length (transactions (snd (projr (createTransaction ex_ledger (ex_data 1 1 20))))) = 2"
  unfolding createTransaction_same_account [THEN conjunct1]
  by (simp add: ex_row_def ex_ledger_def)




text \<open>
  Claim C7. Let \<open>t\<close> be the stored transaction with id \<open>i\<close>, its debit and credit
  accounts both present. Deleting \<open>i\<close> and then creating a transaction with the amount
  and the account ids of \<open>t\<close> succeeds, and gives back the account table of before the
  delete: both balances are restored.
\<close>

theorem delete_create_roundtrip:
  assumes "findTransactionById (transactions s) i = Some t"
    and "findAccountById (accounts s) (debitAccountId t) \<noteq> None"
    and "findAccountById (accounts s) (creditAccountId t) \<noteq> None"
    and "td_amount d = amount t"
    and "td_debitAccountId d = debitAccountId t"
    and "td_creditAccountId d = creditAccountId t"
  shows "\<exists>s1 t' s2. deleteTransaction s i = Inr s1
           \<and> createTransaction s1 d = Inr (t', s2)
           \<and> accounts s2 = accounts s
           \<and> getAccountBalance s2 (debitAccountId t) = getAccountBalance s (debitAccountId t)
           \<and> getAccountBalance s2 (creditAccountId t) = getAccountBalance s (creditAccountId t)"
proof -
  define s1 where "s1 = (updateAccountBalances s (debitAccountId t) (creditAccountId t) (- amount t))
                          \<lparr>transactions := removeTransaction (transactions s) t\<rparr>"
  have del: "deleteTransaction s i = Inr s1"
    using assms(1) by (simp add: deleteTransaction_def s1_def Let_def)
  have acc1: "accounts s1 = map (\<lambda>a. a\<lparr>balance := balance a
            + share (debitAccountId t) (creditAccountId t) (- amount t) (acc_id a)\<rparr>) (accounts s)"
    by (simp add: s1_def accounts_updateAccountBalances)
  have ex: "findAccountById (accounts s1) (debitAccountId t) \<noteq> None"
           "findAccountById (accounts s1) (creditAccountId t) \<noteq> None"
    using assms(2,3) by (simp_all add: acc1 findAccountById_map_balance)
  then obtain t' s2 where cr: "createTransaction s1 d = Inr (t', s2)"
    by (auto simp: createTransaction_def Let_def assms(5,6))
  have "accounts s2 = accounts s"
    using createTransaction_Inr(2) [OF cr]
    by (simp add: acc1 assms(4,5,6) o_def share_neg)
  with del cr show ?thesis by (simp add: getAccountBalance_def)
qed

theorem delete_create_roundtrip_witness:
  "findTransactionById (transactions ex_ledger) 1 = Some ex_row
   \<and> (\<exists>s1 t' s2. deleteTransaction ex_ledger 1 = Inr s1
         \<and> createTransaction s1 (ex_data 2 1 50) = Inr (t', s2)
         \<and> accounts s2 = accounts ex_ledger)"
proof -
  have "findAccountById (accounts ex_ledger) (debitAccountId ex_row) \<noteq> None"
       "findAccountById (accounts ex_ledger) (creditAccountId ex_row) \<noteq> None"
       "td_amount (ex_data 2 1 50) = amount ex_row"
       "td_debitAccountId (ex_data 2 1 50) = debitAccountId ex_row"
       "td_creditAccountId (ex_data 2 1 50) = creditAccountId ex_row"
    using ex_find(2,3) by (simp_all add: ex_row_def ex_data_def)
  from delete_create_roundtrip [OF ex_find(1) this] ex_find(1) show ?thesis by blast
qed

text \<open>
  Claim C8. For a stored transaction, an update whose patch holds no amount and no
  account id (a patch of description, status, notes, reference or category, say) leaves
  the account table unchanged, whether the call returns or throws, so the balances of the
  debit and the credit account are what they were. The call returns the row with the
  patch assigned when the category the patch names, if any, exists.
\<close>

theorem update_non_balance_frame:
  assumes "findTransactionById (transactions s) i = Some t"
    and "up_amount p = None" and "up_debitAccountId p = None" and "up_creditAccountId p = None"
  shows "accounts (snd (updateTransaction s i p)) = accounts s
         \<and> getAccountBalance (snd (updateTransaction s i p)) (debitAccountId t)
             = getAccountBalance s (debitAccountId t)
         \<and> getAccountBalance (snd (updateTransaction s i p)) (creditAccountId t)
             = getAccountBalance s (creditAccountId t)
         \<and> (references_ok s p \<longrightarrow>
               updateTransaction s i p
                 = (Inr (assign t p), s\<lparr>transactions := saveTransaction (transactions s) (assign t p)\<rparr>))"
  using assms by (simp add: updateTransaction_def Let_def getAccountBalance_def)

theorem update_non_balance_frame_witness:
  "findTransactionById (transactions ex_ledger) 1 = Some ex_row
   \<and> up_amount (no_patch\<lparr>up_description := Some ''Weekly shop''\<rparr>) = None
   \<and> references_ok ex_ledger (no_patch\<lparr>up_description := Some ''Weekly shop''\<rparr>)
   \<and> fst (updateTransaction ex_ledger 1 (no_patch\<lparr>up_description := Some ''Weekly shop''\<rparr>))
       = Inr (ex_row\<lparr>description := ''Weekly shop''\<rparr>)
   \<and> accounts (snd (updateTransaction ex_ledger 1 (no_patch\<lparr>up_description := Some ''Weekly shop''\<rparr>)))
       = accounts ex_ledger"
proof -
  have none: "up_amount (no_patch\<lparr>up_description := Some ''Weekly shop''\<rparr>) = None"
    "up_debitAccountId (no_patch\<lparr>up_description := Some ''Weekly shop''\<rparr>) = None"
    "up_creditAccountId (no_patch\<lparr>up_description := Some ''Weekly shop''\<rparr>) = None"
    by (simp_all add: no_patch_def)
  have refs: "references_ok ex_ledger (no_patch\<lparr>up_description := Some ''Weekly shop''\<rparr>)"
    by (simp add: references_ok_def no_patch_def)
  have row: "assign ex_row (no_patch\<lparr>up_description := Some ''Weekly shop''\<rparr>)
               = ex_row\<lparr>description := ''Weekly shop''\<rparr>"
    by (simp add: assign_def no_patch_def)
  from update_non_balance_frame [OF ex_find(1) none] refs
  show ?thesis
    using ex_find(1) none(1) by (simp add: row)
qed

text \<open>
  Claim C10 says that \<open>getAccountBalance\<close> returns 0 for an id that matches no account,
  so that a missing account cannot be told from an account whose balance is zero. The
  first half holds. The second does not: the balance of a loaded account is the text of the
  decimal column, which this function does not convert (the declared result is a number,
  and the repository converts the same field elsewhere), so an account with balance zero
  gives the string \<^verbatim>\<open>0.00\<close>, which is truthy, and a missing account the number 0.
\<close>

theorem getAccountBalance_missing:
  "(findAccountById (accounts s) accountId = None \<longrightarrow> getAccountBalance s accountId = JNumber 0)
   \<and> balance (the (findAccountById (accounts ex_opened) 1)) = 0
   \<and> getAccountBalance ex_opened 1 = JString ''0.00''
   \<and> findAccountById (accounts ex_opened) 99 = None
   \<and> getAccountBalance ex_opened 99 = JNumber 0"
  by (simp add: getAccountBalance_def ex_opened_def findAccountById_def decimal_text_def
                falsy_def string_of_nat_small)

theorem getAccountBalance_missing_witness:
  "findAccountById (accounts ex_ledger) 99 = None
   \<and> getAccountBalance ex_ledger 99 = JNumber 0
   \<and> getAccountBalance ex_opened 1 \<noteq> getAccountBalance ex_opened 99"
  using getAccountBalance_missing [of ex_ledger 99] ex_find(4) by simp

section \<open>Import execution\<close>













section \<open>QIF parser\<close>

lemma qif_ex_entries: "split_on CHR ''^'' ''D12/1/2024\<newline>T-50.00\<newline>PGrocery Store\<newline>LFood\<newline>CX\<newline>^''
  = [''D12/1/2024\<newline>T-50.00\<newline>PGrocery Store\<newline>LFood\<newline>CX\<newline>'', []]"
  by simp

lemma qif_ex_trim: "trim ''D12/1/2024\<newline>T-50.00\<newline>PGrocery Store\<newline>LFood\<newline>CX\<newline>''
  = ''D12/1/2024\<newline>T-50.00\<newline>PGrocery Store\<newline>LFood\<newline>CX''"
  by (simp add: trim_def is_space_def)

lemma qif_ex_lines: "split_on CHR 0x0A ''D12/1/2024\<newline>T-50.00\<newline>PGrocery Store\<newline>LFood\<newline>CX''
  = [''D12/1/2024'', ''T-50.00'', ''PGrocery Store'', ''LFood'', ''CX'']"
  by simp

lemma qif_ex_amount: "parseFloat ''-50.00'' = Finite (- 50)"
  by (simp add: parseFloat_def read_sign_def is_space_def is_digit_def read_exponent_def
        digits_val_def digit_val_def pow10_def Let_def)

lemma qif_ex_trims:
  "trim ''D12/1/2024'' = ''D12/1/2024''" "trim ''12/1/2024'' = ''12/1/2024''"
  "trim ''T-50.00'' = ''T-50.00''" "trim ''-50.00'' = ''-50.00''"
  "trim ''PGrocery Store'' = ''PGrocery Store''" "trim ''Grocery Store'' = ''Grocery Store''"
  "trim ''LFood'' = ''LFood''" "trim ''Food'' = ''Food''"
  "trim ''CX'' = ''CX''" "trim ''X'' = ''X''" "trim [] = []"
  by (simp_all add: trim_def is_space_def)

lemma qif_ex_entry:
  "qif_entry ''D12/1/2024\<newline>T-50.00\<newline>PGrocery Store\<newline>LFood\<newline>CX\<newline>''
   = [\<lparr>qif_date = ''12/1/2024'', qif_amount = Finite (- 50),
       qif_description = Some ''Grocery Store'', qif_category = Some ''Food'',
       qif_cleared = Some ''X'', qif_reference = None\<rparr>]"
  by (simp add: qif_entry_def qif_ex_trim qif_ex_lines qif_line_def qif_ex_trims qif_ex_amount truthy_def)

text \<open>
  Claim C9. \<open>parseQif\<close> on the entry with the lines \<^verbatim>\<open>D12/1/2024\<close>,
  \<^verbatim>\<open>T-50.00\<close>, \<^verbatim>\<open>PGrocery Store\<close>, \<^verbatim>\<open>LFood\<close>, \<^verbatim>\<open>CX\<close> and the closing
  \<^verbatim>\<open>^\<close> yields exactly one record: date \<^verbatim>\<open>12/1/2024\<close>, amount -50, description
  \<^verbatim>\<open>Grocery Store\<close>, category \<^verbatim>\<open>Food\<close>, cleared \<^verbatim>\<open>X\<close>, and no reference.
\<close>

theorem parseQif_example:
  "parseQif ''D12/1/2024\<newline>T-50.00\<newline>PGrocery Store\<newline>LFood\<newline>CX\<newline>^''
     = [\<lparr>qif_date = ''12/1/2024'', qif_amount = Finite (- 50),
         qif_description = Some ''Grocery Store'', qif_category = Some ''Food'',
         qif_cleared = Some ''X'', qif_reference = None\<rparr>]"
  by (simp add: parseQif_def qif_ex_entries qif_ex_trim qif_ex_trims qif_ex_entry
           del: split_on.simps)

theorem parseQif_example_witness:
  "map qif_amount
     (parseQif ''D12/1/2024\<newline>T-50.00\<newline>PGrocery Store\<newline>LFood\<newline>CX\<newline>^'')
     = [Finite (- 50)]"
  using parseQif_example by simp

section \<open>Date parsing\<close>

lemma iso_ex_slashes: "regex_match (formats ! 0) ''2024-03-05'' = None"
  by (simp add: formats_def is_digit_def)

lemma iso_ex_dashes: "regex_match (formats ! 1) ''2024-03-05'' = Some [''24'', ''03'', ''05'']"
  by (simp add: formats_def is_digit_def)

lemma iso_ex_groups: "parseInt ''24'' = 24" "parseInt ''03'' = 3" "parseInt ''05'' = 5"
  by (simp_all add: parseInt_def is_digit_def digits_val_def digit_val_def)

lemma iso_ex_day: "newDate 2005 23 3 = LocalDay 13485"
  unfolding newDate_def days_from_civil_def Let_def by simp

lemma iso_ex_civil: "civil_from_days 13485 = (2006, 12, 3)"
  unfolding civil_from_days_def Let_def by simp

text \<open>
  Claim C3 says that \<^verbatim>\<open>2024-03-05\<close> parses to year 2024, month 5, day 3. The code
  does not get that far: the second pattern, meant for \<^verbatim>\<open>MM-DD-YY\<close>, matches
  \<^verbatim>\<open>24-03-05\<close> inside the string, so the month group is 24, the day group 03 and the
  year 05, read as 2005, and no swap is made. \<^verbatim>\<open>new Date(2005, 23, 3)\<close> is
  3 December 2006.
\<close>

theorem parseDate_iso_example:
  "regex_match (formats ! 1) ''2024-03-05'' = Some [''24'', ''03'', ''05'']
   \<and> parseDate ''2024-03-05'' = newDate 2005 23 3
   \<and> getFullYear (parseDate ''2024-03-05'') = Some 2006
   \<and> getMonth (parseDate ''2024-03-05'') = Some 11
   \<and> getDate (parseDate ''2024-03-05'') = Some 3"
proof -
  have parsed: "parseDate ''2024-03-05'' = newDate 2005 23 3"
    using iso_ex_slashes iso_ex_dashes by (simp add: parseDate_def formats_def iso_ex_groups)
  have fields: "getFullYear (newDate 2005 23 3) = Some 2006"
    "getMonth (newDate 2005 23 3) = Some 11" "getDate (newDate 2005 23 3) = Some 3"
    by (simp_all add: iso_ex_day iso_ex_civil)
  show ?thesis
    unfolding parsed by (intro conjI iso_ex_dashes refl fields)
qed

theorem parseDate_iso_example_witness:
  "getFullYear (parseDate ''2024-03-05'') \<noteq> Some 2024
   \<and> getMonth (parseDate ''2024-03-05'') \<noteq> Some 4"
proof -
  note year = parseDate_iso_example [THEN conjunct2, THEN conjunct2, THEN conjunct1]
  note month = parseDate_iso_example [THEN conjunct2, THEN conjunct2, THEN conjunct2, THEN conjunct1]
  show ?thesis unfolding year month by simp
qed

end
